theory Spec2Isabelle
  imports Complex_Main "HOL-Library.AList"
begin

section \<open>Data model of the collector (src/analyzers/data-collector-enhanced.ts)\<close>

text \<open>
  TypeScript interfaces become records, optional fields become \<open>option\<close>, the string
  union \<open>'real' | 'none'\<close> becomes a datatype. Counts and lengths are integers or naturals;
  every other JavaScript \<open>number\<close> (weights, scores, similarity) is a \<open>real\<close>, so the
  arithmetic of the model is exact.
  Field names that occur in several interfaces carry a short prefix in all but one of them.
\<close>

record Tweet =
  tweet_text :: string
  tweet_likes :: "int option"
  tweet_retweets :: "int option"
  tweet_timestamp :: "int option"

record Interactions =
  likes :: "string list"
  retweets :: "string list"
  replies :: "string list"

record TwitterData =
  bio :: string
  following :: "string list"
  tweets :: "Tweet list"
  interactions :: Interactions

record Token =
  token_symbol :: string
  token_name :: string
  token_balance :: string
  token_value :: "real option"

record Nft =
  nft_collection :: string
  nft_name :: string
  nft_tokenId :: string
  nft_image :: "string option"

record Transaction =
  tx_hash :: string
  tx_to :: string
  tx_value :: string
  tx_timestamp :: int
  tx_method :: "string option"

record WalletData =
  address :: string
  tokens :: "Token list"
  nfts :: "Nft list"
  transactions :: "Transaction list"
  contracts :: "string list"
  defiProtocols :: "string list"

record Cast =
  cast_text :: string
  cast_timestamp :: int

record FarcasterData =
  fc_bio :: string
  fc_channels :: "string list"
  fc_casts :: "Cast list"
  fc_following :: "string list"

record ConversationMemory =
  topics :: "string list"
  interests :: "string list"
  preferences :: "string list"
  history :: "string list"
  messageCount :: int

datatype Quality = RealData | NoData

record Permissions =
  perm_twitter :: bool
  perm_conversation :: bool

record DataQuality =
  dq_twitter :: Quality
  dq_conversation :: Quality

record UserData =
  sources :: "string list"
  permissions :: Permissions
  dataQuality :: DataQuality
  twitter :: "TwitterData option"
  conversationMemory :: "ConversationMemory option"
  wallet :: "WalletData option"
  farcaster :: "FarcasterData option"

section \<open>The collaborators of \<open>collect\<close>\<close>

text \<open>
  \<open>collect\<close> awaits a session reader, the bird CLI and the wallet storage. Each of them
  either returns or throws; a throw is \<open>Inl\<close> of an error. The error raised by the
  collector itself for fewer than three messages carries the reported count.
\<close>

datatype error = InsufficientConversationData int | Failure string

record TwitterProfile =
  profile_bio :: string
  profile_tweets :: "Tweet list"

record BirdTwitter =
  fetchTwitterProfile :: "error + TwitterProfile option"
  fetchTwitterFollowing :: "error + string list option"
  analyzeInteractions :: "Tweet list \<Rightarrow> error + Interactions"

record Env =
  readSessionHistory :: "error + ConversationMemory"
  importBirdTwitter :: "error + BirdTwitter"
  getUserWallet :: "error + (error + string option)"

record CollectOptions =
  skipTwitter :: bool
  includeWallet :: bool

section \<open>EnhancedDataCollector\<close>

definition emptyConversationMemory :: ConversationMemory where
  "emptyConversationMemory =
     \<lparr>topics = [], interests = [], preferences = [], history = [], messageCount = 0\<rparr>"

text \<open>The body of the \<open>try\<close> block of \<open>collectConversationMemory\<close>: read the session and throw
  when fewer than three messages were analysed.\<close>

definition readSessionChecked :: "Env \<Rightarrow> error + ConversationMemory" where
  "readSessionChecked env =
     (case readSessionHistory env of
        Inl e \<Rightarrow> Inl e
      | Inr analysis \<Rightarrow>
          if messageCount analysis < 3
          then Inl (InsufficientConversationData (messageCount analysis))
          else Inr \<lparr>topics = topics analysis, interests = interests analysis,
                    preferences = preferences analysis, history = history analysis,
                    messageCount = messageCount analysis\<rparr>)"

text \<open>The \<open>catch\<close> of \<open>collectConversationMemory\<close> encloses that body, the throw included, and
  returns the empty memory.\<close>

definition collectConversationMemory :: "Env \<Rightarrow> error + ConversationMemory" where
  "collectConversationMemory env =
     (case readSessionChecked env of
        Inr m \<Rightarrow> Inr m
      | Inl e \<Rightarrow> Inr emptyConversationMemory)"

definition emptyTwitterData :: TwitterData where
  "emptyTwitterData =
     \<lparr>bio = [], following = [], tweets = [],
      interactions = \<lparr>likes = [], retweets = [], replies = []\<rparr>\<rparr>"

text \<open>The \<open>try\<close> block of \<open>collectTwitterData\<close>, after the module was imported.\<close>

definition fetchTwitter :: "BirdTwitter \<Rightarrow> error + TwitterData" where
  "fetchTwitter bird =
     (case fetchTwitterProfile bird of
        Inl e \<Rightarrow> Inl e
      | Inr None \<Rightarrow> Inr emptyTwitterData
      | Inr (Some profile) \<Rightarrow>
          (case fetchTwitterFollowing bird of
             Inl e \<Rightarrow> Inl e
           | Inr followingData \<Rightarrow>
               (case analyzeInteractions bird (profile_tweets profile) of
                  Inl e \<Rightarrow> Inl e
                | Inr found \<Rightarrow>
                    Inr \<lparr>bio = profile_bio profile,
                         following = (case followingData of None \<Rightarrow> [] | Some hs \<Rightarrow> hs),
                         tweets = profile_tweets profile,
                         interactions = found\<rparr>)))"

definition collectTwitterData :: "Env \<Rightarrow> error + TwitterData" where
  "collectTwitterData env =
     (case importBirdTwitter env of
        Inl e \<Rightarrow> Inl e
      | Inr bird \<Rightarrow>
          (case fetchTwitter bird of
             Inr d \<Rightarrow> Inr d
           | Inl e \<Rightarrow> Inr emptyTwitterData))"

definition checkTwitterPermission :: "Env \<Rightarrow> error + bool" where
  "checkTwitterPermission env = Inr True"

definition emptyWallet :: "string \<Rightarrow> WalletData" where
  "emptyWallet a =
     \<lparr>address = a, tokens = [], nfts = [], transactions = [], contracts = [],
      defiProtocols = []\<rparr>"

definition collectWalletData :: "Env \<Rightarrow> error + WalletData" where
  "collectWalletData env =
     (case getUserWallet env of
        Inl e \<Rightarrow> Inl e
      | Inr (Inl e) \<Rightarrow> Inr (emptyWallet [])
      | Inr (Inr None) \<Rightarrow> Inr (emptyWallet [])
      | Inr (Inr (Some walletAddress)) \<Rightarrow> Inr (emptyWallet walletAddress))"

definition initialUserData :: UserData where
  "initialUserData =
     \<lparr>sources = [],
      permissions = \<lparr>perm_twitter = False, perm_conversation = False\<rparr>,
      dataQuality = \<lparr>dq_twitter = NoData, dq_conversation = NoData\<rparr>,
      twitter = None, conversationMemory = None, wallet = None, farcaster = None\<rparr>"

text \<open>Step 1 of \<open>collect\<close>: the conversation memory.\<close>

definition collectStepConversation :: "Env \<Rightarrow> UserData \<Rightarrow> UserData" where
  "collectStepConversation env u =
     (case collectConversationMemory env of
        Inr m \<Rightarrow>
          u\<lparr>conversationMemory := Some m,
            sources := sources u @ [''Conversation''],
            permissions := (permissions u)\<lparr>perm_conversation := True\<rparr>,
            dataQuality := (dataQuality u)\<lparr>dq_conversation := RealData\<rparr>\<rparr>
      | Inl e \<Rightarrow> u\<lparr>dataQuality := (dataQuality u)\<lparr>dq_conversation := NoData\<rparr>\<rparr>)"

text \<open>Step 2: Twitter, unless skipped. The permission is stored before the data is fetched,
  so it survives a failing fetch.\<close>

definition collectStepTwitter :: "Env \<Rightarrow> CollectOptions \<Rightarrow> UserData \<Rightarrow> UserData" where
  "collectStepTwitter env opts u =
     (if skipTwitter opts then u
      else
        (case checkTwitterPermission env of
           Inl e \<Rightarrow> u\<lparr>dataQuality := (dataQuality u)\<lparr>dq_twitter := NoData\<rparr>\<rparr>
         | Inr hasPermission \<Rightarrow>
             (let u1 = u\<lparr>permissions := (permissions u)\<lparr>perm_twitter := hasPermission\<rparr>\<rparr> in
              if hasPermission then
                (case collectTwitterData env of
                   Inl e \<Rightarrow> u1\<lparr>dataQuality := (dataQuality u1)\<lparr>dq_twitter := NoData\<rparr>\<rparr>
                 | Inr d \<Rightarrow>
                     (let u2 = u1\<lparr>twitter := Some d\<rparr> in
                      if bio d \<noteq> [] \<or> length (tweets d) > 0
                      then u2\<lparr>sources := sources u2 @ [''Twitter''],
                              dataQuality := (dataQuality u2)\<lparr>dq_twitter := RealData\<rparr>\<rparr>
                      else u2\<lparr>dataQuality := (dataQuality u2)\<lparr>dq_twitter := NoData\<rparr>\<rparr>))
              else u1\<lparr>dataQuality := (dataQuality u1)\<lparr>dq_twitter := NoData\<rparr>\<rparr>)))"

text \<open>Step 3: the wallet, only on request.\<close>

definition collectStepWallet :: "Env \<Rightarrow> CollectOptions \<Rightarrow> UserData \<Rightarrow> UserData" where
  "collectStepWallet env opts u =
     (if includeWallet opts then
        (case collectWalletData env of
           Inr w \<Rightarrow> u\<lparr>wallet := Some w, sources := sources u @ [''Wallet'']\<rparr>
         | Inl e \<Rightarrow> u)
      else u)"

definition collect :: "Env \<Rightarrow> CollectOptions \<Rightarrow> UserData" where
  "collect env opts =
     collectStepWallet env opts
       (collectStepTwitter env opts (collectStepConversation env initialUserData))"

definition hasSufficientData :: "UserData \<Rightarrow> bool" where
  "hasSufficientData userData =
     (case conversationMemory userData of
        None \<Rightarrow> False
      | Some m \<Rightarrow> if messageCount m < 3 then False else True)"

definition getDataQualityScore :: "UserData \<Rightarrow> int" where
  "getDataQualityScore userData =
     (let score = 0;
          score = (case conversationMemory userData of
                     None \<Rightarrow> score
                   | Some m \<Rightarrow>
                       (let score = score + 70;
                            score = (if length (topics m) \<ge> 3 then score + 5 else score);
                            score = (if length (interests m) \<ge> 3 then score + 5 else score);
                            score = (if length (history m) \<ge> 5 then score + 5 else score)
                        in score));
          score = (case twitter userData of
                     Some t \<Rightarrow>
                       if dq_twitter (dataQuality userData) = RealData then
                         (let score = score + 10;
                              score = (if length (tweets t) \<ge> 10 then score + 3 else score);
                              score = (if length (following t) \<ge> 20 then score + 2 else score)
                          in score)
                       else score
                   | None \<Rightarrow> score)
      in min score 100)"

section \<open>Signal merger (\<open>mergeSignals\<close> and its helpers)\<close>

record UserMdSignals =
  role :: "string option"
  currentFocus :: "string list option"
  techStack :: "string list option"
  md_interests :: "string list option"
  workingStyle :: "string option"
  raw :: "(string \<times> string) list option"

text \<open>\<open>eventCount\<close> is the length of the stored event list (\<open>events.length\<close>), a natural
  number. \<open>categoryWeights\<close> is a JavaScript object; the association list holds its entries
  in the order \<open>Object.entries\<close> yields them.\<close>

record FeedbackData =
  categoryWeights :: "(string \<times> real) list option"
  excludeSkillIds :: "string list option"
  eventCount :: nat

record Dimensions =
  dim_conviction :: real
  dim_intuition :: real
  dim_contribution :: real

record DimensionNudges =
  conviction :: int
  intuition :: int
  contribution :: int

record MergedSignals =
  mainCategories :: "string list"
  subCategories :: "string list"
  dimensionNudges :: DimensionNudges
  excludedSkillIds :: "string list option"
  merged_categoryWeights :: "(string \<times> real) list option"

subsection \<open>Strings and the regular expressions of the tables\<close>

definition toLowerChar :: "char \<Rightarrow> char" where
  "toLowerChar c =
     (case map_of (zip ''ABCDEFGHIJKLMNOPQRSTUVWXYZ'' ''abcdefghijklmnopqrstuvwxyz'') c of
        None \<Rightarrow> c
      | Some l \<Rightarrow> l)"

definition toLowerCase :: "string \<Rightarrow> string" where
  "toLowerCase s = map toLowerChar s"

text \<open>A word character of \<open>\b\<close>: a letter, a digit or the underscore.\<close>

definition isWordChar :: "char \<Rightarrow> bool" where
  "isWordChar c =
     (c \<in> set ''abcdefghijklmnopqrstuvwxyzABCDEFGHIJKLMNOPQRSTUVWXYZ0123456789_'')"

fun startsWith :: "string \<Rightarrow> string \<Rightarrow> bool" where
  "startsWith s [] = True"
| "startsWith [] (p # ps) = False"
| "startsWith (c # s) (p # ps) = (c = p \<and> startsWith s ps)"

text \<open>\<open>join(' ')\<close> of an array of strings.\<close>

fun joinSpace :: "string list \<Rightarrow> string" where
  "joinSpace [] = []"
| "joinSpace [x] = x"
| "joinSpace (x # y # ys) = x @ '' '' @ joinSpace (y # ys)"

text \<open>Every regular expression of the source is an alternation of literal lower-case
  strings under the flag \<open>i\<close>, with an optional \<open>\b\<close> before and after the group.\<close>

record Regex =
  leadingBoundary :: bool
  alternatives :: "string list"
  trailingBoundary :: bool

text \<open>\<open>\b\<close> holds between two neighbours when exactly one of them is a word character; the
  outside of the string counts as a non-word character.\<close>

definition atBoundary :: "char option \<Rightarrow> char option \<Rightarrow> bool" where
  "atBoundary prev next_c =
     ((case prev of None \<Rightarrow> False | Some c \<Rightarrow> isWordChar c)
        \<noteq> (case next_c of None \<Rightarrow> False | Some c \<Rightarrow> isWordChar c))"

definition headOption :: "'a list \<Rightarrow> 'a option" where
  "headOption xs = (case xs of [] \<Rightarrow> None | x # _ \<Rightarrow> Some x)"

definition lastOption :: "'a list \<Rightarrow> 'a option" where
  "lastOption xs = (case xs of [] \<Rightarrow> None | _ # _ \<Rightarrow> Some (last xs))"

text \<open>A match that starts at the current position; \<open>prev\<close> is the character in front.\<close>

definition matchHere :: "Regex \<Rightarrow> char option \<Rightarrow> string \<Rightarrow> bool" where
  "matchHere r prev s =
     ((if leadingBoundary r then atBoundary prev (headOption s) else True) \<and>
      (\<exists>alt \<in> set (alternatives r).
         startsWith (toLowerCase s) alt \<and>
         (if trailingBoundary r
          then atBoundary (lastOption (take (length alt) s)) (headOption (drop (length alt) s))
          else True)))"

fun testFrom :: "Regex \<Rightarrow> char option \<Rightarrow> string \<Rightarrow> bool" where
  "testFrom r prev [] = matchHere r prev []"
| "testFrom r prev (c # s) = (matchHere r prev (c # s) \<or> testFrom r (Some c) s)"

definition regexTest :: "Regex \<Rightarrow> string \<Rightarrow> bool" where
  "regexTest r s = testFrom r None s"

definition wordStart :: "string list \<Rightarrow> Regex" where
  "wordStart alts = \<lparr>leadingBoundary = True, alternatives = alts, trailingBoundary = False\<rparr>"

definition wholeWord :: "string list \<Rightarrow> Regex" where
  "wholeWord alts = \<lparr>leadingBoundary = True, alternatives = alts, trailingBoundary = True\<rparr>"

definition anywhere :: "string list \<Rightarrow> Regex" where
  "anywhere alts = \<lparr>leadingBoundary = False, alternatives = alts, trailingBoundary = False\<rparr>"

definition ROLE_CATEGORY_MAP :: "(Regex \<times> string) list" where
  "ROLE_CATEGORY_MAP =
     [(wordStart [''bd'', ''sales'', ''growth'', ''business dev''], ''Marketing''),
      (wordStart [''develop'', ''engineer'', ''programmer'', ''software'', ''coding''],
         ''Development''),
      (wordStart [''research'', ''scientist'', ''academic''], ''Education''),
      (wordStart [''design'', ''ui'', ''ux'', ''creative''], ''Design''),
      (wordStart [''market'', ''seo'', ''content'', ''brand''], ''Marketing''),
      (wordStart [''financ'', ''invest'', ''trad''], ''Finance''),
      (wordStart [''founder'', ''cto'', ''ceo'', ''co-founder''], ''Development''),
      (wordStart [''community'', ''advocate'', ''ambassador''], ''Marketing'')]"

definition FOCUS_CATEGORY_MAP :: "(Regex \<times> string) list" where
  "FOCUS_CATEGORY_MAP =
     [(wordStart [''defi'', ''crypto'', ''web3'', ''blockchain'', ''token'', ''dao'', ''nft'',
                  ''onchain''], ''Crypto''),
      (wordStart [''ai'', ''llm'', ''agent'', ''machine learning'', ''gpt'', ''neural''],
         ''AI Tools''),
      (wordStart [''design'', ''ui'', ''ux'', ''figma''], ''Design''),
      (wordStart [''educat'', ''learn'', ''teach'', ''course''], ''Education''),
      (wordStart [''wellness'', ''health'', ''fitness'', ''meditation''], ''Wellness''),
      (wordStart [''productiv'', ''workflow'', ''automat''], ''Productivity'')]"

definition TECH_CATEGORY_MAP :: "(Regex \<times> string) list" where
  "TECH_CATEGORY_MAP =
     [(wordStart [''claude-code'', ''claude'', ''anthropic'', ''openai'', ''gpt''], ''AI Tools''),
      (wholeWord [''typescript'', ''javascript'', ''python'', ''rust'', ''go'', ''java''],
         ''Development''),
      (wordStart [''solidity'', ''hardhat'', ''foundry'', ''ethers'', ''viem'', ''wagmi''],
         ''Crypto''),
      (wordStart [''react'', ''next'', ''vue'', ''svelte'', ''angular''], ''Development''),
      (wordStart [''figma'', ''sketch'', ''adobe''], ''Design'')]"

subsection \<open>Insertion-ordered sets and maps\<close>

text \<open>A JavaScript \<open>Set\<close> iterates in insertion order; \<open>add\<close> of a member changes nothing.\<close>

definition setAdd :: "'a list \<Rightarrow> 'a \<Rightarrow> 'a list" where
  "setAdd s x = (if x \<in> set s then s else s @ [x])"

definition setAddAll :: "'a list \<Rightarrow> 'a list \<Rightarrow> 'a list" where
  "setAddAll s xs = foldl setAdd s xs"

text \<open>A JavaScript \<open>Map\<close> is an association list in insertion order: \<open>set\<close> of a present key
  replaces the value in place, \<open>set\<close> of a new key appends (\<open>AList.update\<close>).
  \<open>categoryScores.get(cat) || 0\<close>:\<close>

definition getOrZero :: "(string \<times> real) list \<Rightarrow> string \<Rightarrow> real" where
  "getOrZero scores cat = (case map_of scores cat of None \<Rightarrow> 0 | Some v \<Rightarrow> v)"

subsection \<open>USER.md to categories\<close>

text \<open>One pass over a table: every entry whose expression matches adds its category.\<close>

fun addMatching :: "(Regex \<times> string) list \<Rightarrow> string \<Rightarrow> string list \<Rightarrow> string list" where
  "addMatching [] txt cats = cats"
| "addMatching ((regex, category) # tbl) txt cats =
     addMatching tbl txt (if regexTest regex txt then setAdd cats category else cats)"

definition mapUserMdToCategories :: "UserMdSignals \<Rightarrow> string list" where
  "mapUserMdToCategories userMd =
     (let categories = [];
          categories = (case role userMd of
                          None \<Rightarrow> categories
                        | Some r \<Rightarrow>
                            if r \<noteq> [] then addMatching ROLE_CATEGORY_MAP r categories
                            else categories);
          categories = (case currentFocus userMd of
                          None \<Rightarrow> categories
                        | Some focus \<Rightarrow>
                            addMatching FOCUS_CATEGORY_MAP (joinSpace focus) categories);
          categories = (case techStack userMd of
                          None \<Rightarrow> categories
                        | Some tech \<Rightarrow>
                            addMatching TECH_CATEGORY_MAP (joinSpace tech) categories)
      in categories)"

subsection \<open>Dimension nudges\<close>

definition clamp :: "int \<Rightarrow> int \<Rightarrow> int \<Rightarrow> int" where
  "clamp v lo hi = max lo (min hi v)"

text \<open>The three local variables of \<open>calculateDimensionNudges\<close> before the final clamp.\<close>

definition rawDimensionNudges :: "UserMdSignals \<Rightarrow> int \<times> int \<times> int" where
  "rawDimensionNudges userMd =
     (let conviction = 0; intuition = 0; contribution = 0;
          (conviction, intuition) =
             (if workingStyle userMd = Some ''deep-focus'' then (conviction + 15, intuition)
              else if workingStyle userMd = Some ''explorer''
                      \<or> workingStyle userMd = Some ''multitasker''
              then (conviction - 10, intuition + 10)
              else (conviction, intuition))
      in case role userMd of
           None \<Rightarrow> (conviction, intuition, contribution)
         | Some r \<Rightarrow>
             if r \<noteq> [] then
               (let roleLower = toLowerCase r;
                    intuition =
                      (if regexTest (anywhere [''research'']) roleLower
                       then intuition + 10 else intuition);
                    contribution =
                      (if regexTest
                            (anywhere [''community'', ''bd'', ''business dev'', ''ambassador''])
                            roleLower
                       then contribution + 10 else contribution);
                    conviction =
                      (if regexTest (anywhere [''founder'', ''cto'', ''ceo'', ''co-founder''])
                            roleLower
                       then conviction + 10 else conviction)
                in (conviction, intuition, contribution))
             else (conviction, intuition, contribution))"

definition calculateDimensionNudges :: "UserMdSignals \<Rightarrow> DimensionNudges" where
  "calculateDimensionNudges userMd =
     (let (conviction, intuition, contribution) = rawDimensionNudges userMd
      in \<lparr>conviction = clamp conviction (-15) 15,
          intuition = clamp intuition (-15) 15,
          contribution = clamp contribution (-15) 15\<rparr>)"

text \<open>\<open>Math.round\<close>: the nearest integer, a half rounded upwards.\<close>

definition mathRound :: "real \<Rightarrow> int" where
  "mathRound x = \<lfloor>x + 1 / 2\<rfloor>"

subsection \<open>The weight schedule\<close>

definition feedbackEventCount :: "FeedbackData option \<Rightarrow> nat" where
  "feedbackEventCount feedback = (case feedback of None \<Rightarrow> 0 | Some f \<Rightarrow> eventCount f)"

definition feedbackWeight :: "FeedbackData option \<Rightarrow> real" where
  "feedbackWeight feedback = min 0.3 (real (feedbackEventCount feedback) * 0.02)"

definition userMdWeight :: "UserMdSignals option \<Rightarrow> FeedbackData option \<Rightarrow> real" where
  "userMdWeight userMd feedback =
     (case userMd of
        None \<Rightarrow> 0
      | Some _ \<Rightarrow> max 0.2 (0.3 - feedbackWeight feedback * 0.33))"

definition convWeight :: "UserMdSignals option \<Rightarrow> FeedbackData option \<Rightarrow> real" where
  "convWeight userMd feedback = 1.0 - userMdWeight userMd feedback - feedbackWeight feedback"

subsection \<open>The scoreboard\<close>

text \<open>The loop over one source's category list, from index \<open>i\<close> on.\<close>

fun addPositional ::
  "real \<Rightarrow> nat \<Rightarrow> string list \<Rightarrow> (string \<times> real) list \<Rightarrow> (string \<times> real) list" where
  "addPositional w i [] scores = scores"
| "addPositional w i (cat # cats) scores =
     (let positionBonus = 1.0 - (real i * 0.1)
      in addPositional w (Suc i) cats
           (AList.update cat (getOrZero scores cat + w * positionBonus) scores))"

text \<open>The loop over the entries of \<open>feedback.categoryWeights\<close>.\<close>

fun applyFeedback ::
  "real \<Rightarrow> (string \<times> real) list \<Rightarrow> (string \<times> real) list \<Rightarrow> (string \<times> real) list" where
  "applyFeedback fw [] scores = scores"
| "applyFeedback fw ((cat, weight) # entries) scores =
     (let existing = getOrZero scores cat
      in applyFeedback fw entries
           (if existing > 0 then AList.update cat (existing * weight) scores
            else if weight > 1.2 then AList.update cat (fw * (weight - 1.0)) scores
            else scores))"

text \<open>The scoreboard after the conversation loop and the USER.md loop.\<close>

definition userMdCategories :: "UserMdSignals option \<Rightarrow> string list" where
  "userMdCategories userMd = (case userMd of None \<Rightarrow> [] | Some u \<Rightarrow> mapUserMdToCategories u)"

definition userMdSubCategories :: "UserMdSignals option \<Rightarrow> string list" where
  "userMdSubCategories userMd =
     (case userMd of
        None \<Rightarrow> []
      | Some u \<Rightarrow> (case md_interests u of None \<Rightarrow> [] | Some xs \<Rightarrow> xs))"

definition accumulatedScores ::
  "string list \<Rightarrow> UserMdSignals option \<Rightarrow> FeedbackData option \<Rightarrow> (string \<times> real) list" where
  "accumulatedScores conversationCategories userMd feedback =
     addPositional (userMdWeight userMd feedback) 0 (userMdCategories userMd)
       (addPositional (convWeight userMd feedback) 0 conversationCategories [])"

text \<open>The scoreboard after the feedback loop.\<close>

definition categoryScores ::
  "string list \<Rightarrow> UserMdSignals option \<Rightarrow> FeedbackData option \<Rightarrow> (string \<times> real) list" where
  "categoryScores conversationCategories userMd feedback =
     (let scores = accumulatedScores conversationCategories userMd feedback
      in case feedback of
           None \<Rightarrow> scores
         | Some f \<Rightarrow>
             (case categoryWeights f of
                None \<Rightarrow> scores
              | Some entries \<Rightarrow> applyFeedback (feedbackWeight feedback) entries scores))"

text \<open>\<open>Array.prototype.sort\<close> is stable; the comparator \<open>b - a\<close> orders by descending score,
  which is ascending order of the negated score.\<close>

definition sortedCategories ::
  "string list \<Rightarrow> UserMdSignals option \<Rightarrow> FeedbackData option \<Rightarrow> string list" where
  "sortedCategories conversationCategories userMd feedback =
     map fst (sort_key (\<lambda>entry. - snd entry) (categoryScores conversationCategories userMd feedback))"

definition scaledNudges :: "UserMdSignals option \<Rightarrow> FeedbackData option \<Rightarrow> DimensionNudges" where
  "scaledNudges userMd feedback =
     (let raw = (case userMd of
                   None \<Rightarrow> \<lparr>conviction = 0, intuition = 0, contribution = 0\<rparr>
                 | Some u \<Rightarrow> calculateDimensionNudges u);
          scale = userMdWeight userMd feedback / 0.3
      in \<lparr>conviction = mathRound (real_of_int (conviction raw) * scale),
          intuition = mathRound (real_of_int (intuition raw) * scale),
          contribution = mathRound (real_of_int (contribution raw) * scale)\<rparr>)"

definition mergeSignals ::
  "string list \<Rightarrow> Dimensions \<Rightarrow> UserMdSignals option \<Rightarrow> FeedbackData option \<Rightarrow> MergedSignals" where
  "mergeSignals conversationCategories conversationDimensions userMd feedback =
     (let sorted = sortedCategories conversationCategories userMd feedback;
          main = take 3 sorted;
          subCategorySet =
            setAddAll (setAddAll [] (drop 3 sorted)) (userMdSubCategories userMd)
      in \<lparr>mainCategories = (if length main > 0 then main else conversationCategories),
          subCategories = take 10 subCategorySet,
          dimensionNudges = scaledNudges userMd feedback,
          excludedSkillIds = (case feedback of None \<Rightarrow> None | Some f \<Rightarrow> excludeSkillIds f),
          merged_categoryWeights =
            (case feedback of None \<Rightarrow> None | Some f \<Rightarrow> categoryWeights f)\<rparr>)"

section \<open>ClawHub client (\<open>searchMultipleCategories\<close>)\<close>

record SkillStats =
  downloads :: int
  versions :: int
  stars :: int
  installsAllTime :: int
  comments :: int

record Moderation =
  isSuspicious :: bool
  isMalwareBlocked :: bool

record ClawHubSkill =
  slug :: string
  version :: string
  name :: string
  description :: string
  similarityScore :: real
  url :: string
  categories :: "string list option"
  creator :: "string option"
  creatorUserId :: "string option"
  stats :: "SkillStats option"
  moderation :: "Moderation option"

text \<open>The body of the inner loop: \<open>seenSlugs\<close> and \<open>allResults\<close> are the state.\<close>

definition addUnseen ::
  "string list \<times> ClawHubSkill list \<Rightarrow> ClawHubSkill \<Rightarrow> string list \<times> ClawHubSkill list" where
  "addUnseen st skill =
     (case st of (seenSlugs, allResults) \<Rightarrow>
        if slug skill \<notin> set seenSlugs
        then (setAdd seenSlugs (slug skill), allResults @ [skill])
        else (seenSlugs, allResults))"

definition dedupBySlug :: "ClawHubSkill list list \<Rightarrow> ClawHubSkill list" where
  "dedupBySlug resultsArrays =
     snd (foldl (\<lambda>st results. foldl addUnseen st results) ([], []) resultsArrays)"

text \<open>\<open>searchSkills\<close> is the HTTP search; it resolves to the parsed skills, or to the empty
  list when the request fails, and is a parameter here. \<open>Promise.all\<close> keeps the order of
  the categories.\<close>

definition searchMultipleCategories ::
  "(string \<Rightarrow> nat \<Rightarrow> ClawHubSkill list) \<Rightarrow> string list \<Rightarrow> nat \<Rightarrow> ClawHubSkill list" where
  "searchMultipleCategories searchSkills cats limitPerCategory =
     (let resultsArrays = map (\<lambda>category. searchSkills category limitPerCategory) cats;
          allResults = dedupBySlug resultsArrays
      in sort_key (\<lambda>skill. - similarityScore skill) allResults)"

section \<open>Dimension classifier\<close>

datatype IdentityType = Visionary | Explorer | Optimizer | Innovator | Cultivator

text \<open>Modelled from the spec: the personality analyzer (src/analyzers/personality-analyzer.ts)
  that classifies a dimension triple is not part of the sources at hand; only its
  documentation is. The definition follows section 4.3 of the specification: the override
  on \<open>contribution > 65\<close> first, then the quadrant of \<open>conviction \<ge> 50\<close> and
  \<open>intuition \<ge> 50\<close>.\<close>

definition classify :: "real \<Rightarrow> real \<Rightarrow> real \<Rightarrow> IdentityType" where
  "classify conv intu contrib =
     (if contrib > 65 then Cultivator
      else if conv \<ge> 50 then (if intu \<ge> 50 then Visionary else Optimizer)
      else (if intu \<ge> 50 then Explorer else Innovator))"

section \<open>Auxiliary definitions and concrete inputs\<close>

text \<open>A session of two messages, a failing Twitter module and no wallet request.\<close>

definition twoMessageSession :: ConversationMemory where
  "twoMessageSession =
     \<lparr>topics = [''agents''], interests = [''AI Tools''], preferences = [],
      history = [''hello'', ''which skills fit me?''], messageCount = 2\<rparr>"

definition twoMessageEnv :: Env where
  "twoMessageEnv =
     \<lparr>readSessionHistory = Inr twoMessageSession,
      importBirdTwitter = Inl (Failure ''bird CLI missing''),
      getUserWallet = Inl (Failure ''no wallet storage'')\<rparr>"

definition defaultOptions :: CollectOptions where
  "defaultOptions = \<lparr>skipTwitter = False, includeWallet = False\<rparr>"

text \<open>The indicator used to state point rules: \<open>pts b n\<close> is \<open>n\<close> when \<open>b\<close> holds and 0 otherwise.\<close>

definition pts :: "bool \<Rightarrow> int \<Rightarrow> int" where
  "pts b n = (if b then n else 0)"

definition someDimensions :: Dimensions where
  "someDimensions = \<lparr>dim_conviction = 75, dim_intuition = 20, dim_contribution = 10\<rparr>"

definition twentyEvents :: FeedbackData where
  "twentyEvents = \<lparr>categoryWeights = None, excludeSkillIds = None, eventCount = 20\<rparr>"

text \<open>All hits of the category searches, in the order in which the loops visit them.\<close>

definition allHits ::
  "(string \<Rightarrow> nat \<Rightarrow> ClawHubSkill list) \<Rightarrow> string list \<Rightarrow> nat \<Rightarrow> ClawHubSkill list" where
  "allHits searchSkills cats limitPerCategory =
     concat (map (\<lambda>category. searchSkills category limitPerCategory) cats)"

text \<open>The loop invariant of the deduplication, over the hits processed so far.\<close>

definition dedupInv :: "ClawHubSkill list \<Rightarrow> string list \<times> ClawHubSkill list \<Rightarrow> bool" where
  "dedupInv hits st =
     (fst st = map slug (snd st) \<and> distinct (map slug (snd st)) \<and>
      slug ` set (snd st) = slug ` set hits \<and>
      (\<forall>s \<in> set (snd st). find (\<lambda>h. slug h = slug s) hits = Some s))"

text \<open>One skill that two category searches return with different similarity scores.\<close>

definition pdfSkill :: "real \<Rightarrow> ClawHubSkill" where
  "pdfSkill sc =
     \<lparr>slug = ''pdf-tools'', version = ''1.0.0'', name = ''PDF Tools'',
      description = ''Work with PDF files'', similarityScore = sc,
      url = ''https://clawhub.ai/skills/pdf-tools'', categories = None, creator = None,
      creatorUserId = None, stats = None, moderation = None\<rparr>"

definition twoHits :: "string \<Rightarrow> nat \<Rightarrow> ClawHubSkill list" where
  "twoHits category limit =
     (if category = ''Productivity'' then [pdfSkill 0.5]
      else if category = ''AI Tools'' then [pdfSkill 0.9]
      else [])"

text \<open>A static profile that declares interests only.\<close>

definition interestsOnlyProfile :: UserMdSignals where
  "interestsOnlyProfile =
     \<lparr>role = None, currentFocus = None, techStack = None,
      md_interests = Some [''AI Tools'', ''music production''], workingStyle = None,
      raw = None\<rparr>"

text \<open>Twelve conversation categories, and feedback after five events that halves the last
  of them.\<close>

definition twelveCategories :: "string list" where
  "twelveCategories =
     [''AI Tools'', ''Productivity'', ''Wellness'', ''Education'', ''Crypto'', ''Lifestyle'',
      ''Design'', ''Development'', ''Marketing'', ''Finance'', ''Gaming'', ''Music'']"

definition halveMusic :: FeedbackData where
  "halveMusic =
     \<lparr>categoryWeights = Some [(''Music'', 0.5)], excludeSkillIds = None, eventCount = 5\<rparr>"

text \<open>Feedback after ten events that doubles a present category and boosts an absent one.\<close>

definition boostWellness :: FeedbackData where
  "boostWellness =
     \<lparr>categoryWeights = Some [(''Crypto'', 2), (''Wellness'', 1.5)], excludeSkillIds = None,
      eventCount = 10\<rparr>"

text \<open>The entries that one source's loop appends to a scoreboard that holds none of its
  categories yet.\<close>

fun positional :: "real \<Rightarrow> nat \<Rightarrow> string list \<Rightarrow> (string \<times> real) list" where
  "positional w i [] = []"
| "positional w i (c # cs) = (c, w * (1.0 - real i * 0.1)) # positional w (Suc i) cs"

text \<open>The score that one feedback entry leaves for its category, from the scoreboard before
  the entry.\<close>

definition feedbackEntryResult ::
  "real \<Rightarrow> (string \<times> real) list \<Rightarrow> string \<Rightarrow> real \<Rightarrow> real option" where
  "feedbackEntryResult fw scores cat weight =
     (if getOrZero scores cat > 0 then Some (getOrZero scores cat * weight)
      else if weight > 1.2 then Some (fw * (weight - 1.0))
      else map_of scores cat)"

text \<open>A static profile with a role, a focus, a tech stack and a working style.\<close>

definition deepFocusFounder :: UserMdSignals where
  "deepFocusFounder =
     \<lparr>role = Some ''BD Lead & Co-Founder'',
      currentFocus = Some [''DeFi protocols'', ''AI agent ecosystem''],
      techStack = Some [''claude-code'', ''typescript'', ''solidity''],
      md_interests = Some [''music production''], workingStyle = Some ''deep-focus'',
      raw = None\<rparr>"

section \<open>Properties of the collector\<close>

lemma collectConversationMemory_short:
  assumes "readSessionHistory env = Inr a" and "messageCount a < 3"
  shows "readSessionChecked env = Inl (InsufficientConversationData (messageCount a))"
    and "collectConversationMemory env = Inr emptyConversationMemory"
  using assms by (simp_all add: readSessionChecked_def collectConversationMemory_def)

lemma collectStepConversation_short:
  assumes "readSessionHistory env = Inr a" and "messageCount a < 3"
  shows "collectStepConversation env initialUserData =
           initialUserData
             \<lparr>conversationMemory := Some emptyConversationMemory,
              sources := [''Conversation''],
              permissions := \<lparr>perm_twitter = False, perm_conversation = True\<rparr>,
              dataQuality := \<lparr>dq_twitter = NoData, dq_conversation = RealData\<rparr>\<rparr>"
  using collectConversationMemory_short(2)[OF assms]
  by (simp add: collectStepConversation_def initialUserData_def)

lemma collectStepTwitter_keeps_conversation:
  "conversationMemory (collectStepTwitter env opts u) = conversationMemory u \<and>
   dq_conversation (dataQuality (collectStepTwitter env opts u)) = dq_conversation (dataQuality u) \<and>
   perm_conversation (permissions (collectStepTwitter env opts u))
     = perm_conversation (permissions u) \<and>
   set (sources u) \<subseteq> set (sources (collectStepTwitter env opts u))"
  by (auto simp add: collectStepTwitter_def checkTwitterPermission_def Let_def
      split: sum.splits)

lemma collectStepWallet_keeps_conversation:
  "conversationMemory (collectStepWallet env opts u) = conversationMemory u \<and>
   dataQuality (collectStepWallet env opts u) = dataQuality u \<and>
   permissions (collectStepWallet env opts u) = permissions u \<and>
   set (sources u) \<subseteq> set (sources (collectStepWallet env opts u))"
  by (auto simp add: collectStepWallet_def split: sum.splits)

text \<open>
  Claim C1. When the session reader reports fewer than three messages, \<open>collect\<close> should
  leave the conversation bundle unavailable and surface the insufficient-data error.
  The code does the opposite: the error is raised inside \<open>collectConversationMemory\<close> and
  caught there, so \<open>collect\<close> stores the empty memory, lists \<open>Conversation\<close> among the
  successful sources, grants the permission and marks the quality \<open>real\<close>.
\<close>

theorem collect_short_conversation_recorded_as_real:
  assumes "readSessionHistory env = Inr a" and "messageCount a < 3"
  shows "readSessionChecked env = Inl (InsufficientConversationData (messageCount a)) \<and>
         conversationMemory (collect env opts) = Some emptyConversationMemory \<and>
         ''Conversation'' \<in> set (sources (collect env opts)) \<and>
         perm_conversation (permissions (collect env opts)) \<and>
         dq_conversation (dataQuality (collect env opts)) = RealData"
proof -
  let ?u1 = "collectStepConversation env initialUserData"
  let ?u2 = "collectStepTwitter env opts ?u1"
  have u1: "conversationMemory ?u1 = Some emptyConversationMemory"
    "''Conversation'' \<in> set (sources ?u1)"
    "perm_conversation (permissions ?u1)"
    "dq_conversation (dataQuality ?u1) = RealData"
    by (simp_all add: collectStepConversation_short[OF assms])
  have u2: "conversationMemory ?u2 = Some emptyConversationMemory"
    "''Conversation'' \<in> set (sources ?u2)"
    "perm_conversation (permissions ?u2)"
    "dq_conversation (dataQuality ?u2) = RealData"
    using u1 collectStepTwitter_keeps_conversation[of env opts ?u1] by auto
  have "conversationMemory (collectStepWallet env opts ?u2) = Some emptyConversationMemory"
    "''Conversation'' \<in> set (sources (collectStepWallet env opts ?u2))"
    "perm_conversation (permissions (collectStepWallet env opts ?u2))"
    "dq_conversation (dataQuality (collectStepWallet env opts ?u2)) = RealData"
    using u2 collectStepWallet_keeps_conversation[of env opts ?u2] by auto
  then show ?thesis
    using collectConversationMemory_short(1)[OF assms] by (simp add: collect_def)
qed

theorem collect_short_conversation_witness:
  "readSessionChecked twoMessageEnv = Inl (InsufficientConversationData 2) \<and>
   conversationMemory (collect twoMessageEnv defaultOptions) = Some emptyConversationMemory \<and>
   ''Conversation'' \<in> set (sources (collect twoMessageEnv defaultOptions)) \<and>
   perm_conversation (permissions (collect twoMessageEnv defaultOptions)) \<and>
   dq_conversation (dataQuality (collect twoMessageEnv defaultOptions)) = RealData"
  using collect_short_conversation_recorded_as_real
          [of twoMessageEnv twoMessageSession defaultOptions]
  by (simp add: twoMessageEnv_def twoMessageSession_def)

lemma getDataQualityScore_None:
  "conversationMemory u = None \<Longrightarrow>
   getDataQualityScore u =
     (case twitter u of
        None \<Rightarrow> 0
      | Some t \<Rightarrow> pts (dq_twitter (dataQuality u) = RealData)
          (10 + pts (length (tweets t) \<ge> 10) 3 + pts (length (following t) \<ge> 20) 2))"
  by (simp add: getDataQualityScore_def pts_def Let_def split: option.splits)

lemma getDataQualityScore_Some:
  "conversationMemory u = Some m \<Longrightarrow>
   getDataQualityScore u =
     70 + pts (length (topics m) \<ge> 3) 5 + pts (length (interests m) \<ge> 3) 5
        + pts (length (history m) \<ge> 5) 5
     + (case twitter u of
          None \<Rightarrow> 0
        | Some t \<Rightarrow> pts (dq_twitter (dataQuality u) = RealData)
            (10 + pts (length (tweets t) \<ge> 10) 3 + pts (length (following t) \<ge> 20) 2))"
  by (simp add: getDataQualityScore_def pts_def Let_def split: option.splits)

text \<open>
  Claim C7. \<open>getDataQualityScore\<close> is the sum of the conversation part (70 when the
  conversation memory is present, plus 5 for at least 3 topics, 5 for at least 3 interests
  and 5 for at least 5 history snippets) and of the Twitter part (10 when Twitter data is
  present with quality \<open>real\<close>, plus 3 for at least 10 tweets and 2 for at least 20 followed
  accounts), and it lies in the range from 0 to 100.
\<close>

theorem getDataQualityScore_rubric:
  "getDataQualityScore u =
     (case conversationMemory u of
        None \<Rightarrow> 0
      | Some m \<Rightarrow> 70 + pts (length (topics m) \<ge> 3) 5 + pts (length (interests m) \<ge> 3) 5
                    + pts (length (history m) \<ge> 5) 5)
     + (case twitter u of
          None \<Rightarrow> 0
        | Some t \<Rightarrow> pts (dq_twitter (dataQuality u) = RealData)
            (10 + pts (length (tweets t) \<ge> 10) 3 + pts (length (following t) \<ge> 20) 2))
   \<and> 0 \<le> getDataQualityScore u \<and> getDataQualityScore u \<le> 100"
proof (cases "conversationMemory u")
  case None
  then show ?thesis
    by (simp add: getDataQualityScore_None pts_def split: option.splits)
next
  case (Some m)
  then show ?thesis
    by (simp add: getDataQualityScore_Some pts_def split: option.splits)
qed

text \<open>
  Claim C10. \<open>hasSufficientData\<close> holds exactly when the conversation memory is present with
  a message count of at least 3; replacing the sources, permissions, data quality, Twitter,
  wallet and Farcaster fields does not change the answer.
\<close>

theorem hasSufficientData_iff:
  "hasSufficientData u = (\<exists>m. conversationMemory u = Some m \<and> 3 \<le> messageCount m) \<and>
   hasSufficientData
     (u\<lparr>sources := s, permissions := p, dataQuality := q, twitter := t, wallet := w,
        farcaster := f\<rparr>) = hasSufficientData u"
  by (cases "conversationMemory u") (auto simp add: hasSufficientData_def)

section \<open>Properties of the weight schedule\<close>

lemma feedbackWeight_range: "0 \<le> feedbackWeight fb \<and> feedbackWeight fb \<le> 0.3"
  by (simp add: feedbackWeight_def)

lemma userMdWeight_range:
  "0 \<le> userMdWeight um fb \<and> userMdWeight um fb \<le> 0.3"
  using feedbackWeight_range[of fb]
  by (cases um) (auto simp add: userMdWeight_def)

text \<open>
  Claim C4. The feedback weight is \<open>min(0.3, eventCount * 0.02)\<close>, with an event count of 0
  for absent feedback; it is 0 at event count 0, it is 0.3 from event count 15 on, and it
  does not decrease when the event count grows.
\<close>

theorem feedbackWeight_schedule:
  "feedbackEventCount None = 0 \<and> feedbackEventCount (Some f) = eventCount f \<and>
   feedbackWeight fb = min 0.3 (real (feedbackEventCount fb) * 0.02) \<and>
   (feedbackEventCount fb = 0 \<longrightarrow> feedbackWeight fb = 0) \<and>
   (15 \<le> feedbackEventCount fb \<longrightarrow> feedbackWeight fb = 0.3) \<and>
   (feedbackEventCount fb \<le> feedbackEventCount fb' \<longrightarrow> feedbackWeight fb \<le> feedbackWeight fb')"
proof -
  have mono: "feedbackWeight fb \<le> feedbackWeight fb'"
    if "feedbackEventCount fb \<le> feedbackEventCount fb'"
  proof -
    from that have "real (feedbackEventCount fb) * 0.02 \<le> real (feedbackEventCount fb') * 0.02"
      by simp
    then show ?thesis
      unfolding feedbackWeight_def by linarith
  qed
  have cap: "feedbackWeight fb = 0.3" if "15 \<le> feedbackEventCount fb"
  proof -
    from that have "real 15 \<le> real (feedbackEventCount fb)"
      by (simp only: of_nat_le_iff)
    then have "0.3 \<le> real (feedbackEventCount fb) * 0.02" by simp
    then show ?thesis by (simp add: feedbackWeight_def)
  qed
  show ?thesis
    using mono cap by (simp add: feedbackEventCount_def feedbackWeight_def)
qed

theorem feedbackWeight_schedule_witness:
  "feedbackWeight None = 0 \<and> feedbackWeight (Some twentyEvents) = 0.3 \<and>
   feedbackWeight None \<le> feedbackWeight (Some twentyEvents)"
  using feedbackWeight_schedule[of twentyEvents None "Some twentyEvents"]
        feedbackWeight_schedule[of twentyEvents "Some twentyEvents" "Some twentyEvents"]
  by (simp add: twentyEvents_def feedbackEventCount_def)

section \<open>Properties of the dimension nudges\<close>

lemma mathRound_scaled_bounds:
  assumes "- 15 \<le> (v::int)" "v \<le> 15" "0 \<le> s" "s \<le> 1"
  shows "- 15 \<le> mathRound (real_of_int v * s) \<and> mathRound (real_of_int v * s) \<le> 15"
proof -
  have a: "\<bar>real_of_int v * s\<bar> \<le> 15"
  proof -
    have "\<bar>real_of_int v * s\<bar> = \<bar>real_of_int v\<bar> * s" using assms by (simp add: abs_mult)
    also have "\<dots> \<le> \<bar>real_of_int v\<bar> * 1" using assms by (intro mult_left_mono) auto
    also have "\<dots> \<le> 15" using assms by simp
    finally show ?thesis .
  qed
  then have "- 15 \<le> real_of_int v * s" "real_of_int v * s \<le> 15" by linarith+
  then show ?thesis
    unfolding mathRound_def by (simp add: le_floor_iff floor_le_iff)
qed

lemma calculateDimensionNudges_range:
  "- 15 \<le> conviction (calculateDimensionNudges u) \<and> conviction (calculateDimensionNudges u) \<le> 15 \<and>
   - 15 \<le> intuition (calculateDimensionNudges u) \<and> intuition (calculateDimensionNudges u) \<le> 15 \<and>
   - 15 \<le> contribution (calculateDimensionNudges u) \<and> contribution (calculateDimensionNudges u) \<le> 15"
  by (cases "rawDimensionNudges u") (simp add: calculateDimensionNudges_def clamp_def)

lemma scaledNudges_None:
  "scaledNudges None fb = \<lparr>conviction = 0, intuition = 0, contribution = 0\<rparr>"
  by (simp add: scaledNudges_def mathRound_def userMdWeight_def)

lemma scaledNudges_range:
  "- 15 \<le> conviction (scaledNudges um fb) \<and> conviction (scaledNudges um fb) \<le> 15 \<and>
   - 15 \<le> intuition (scaledNudges um fb) \<and> intuition (scaledNudges um fb) \<le> 15 \<and>
   - 15 \<le> contribution (scaledNudges um fb) \<and> contribution (scaledNudges um fb) \<le> 15"
proof (cases um)
  case None
  then show ?thesis by (simp add: scaledNudges_None)
next
  case (Some u)
  define s where "s = userMdWeight um fb / 0.3"
  have s: "0 \<le> s" "s \<le> 1"
    using userMdWeight_range[of um fb] by (auto simp add: s_def)
  note r = calculateDimensionNudges_range[of u]
  have "- 15 \<le> mathRound (real_of_int (conviction (calculateDimensionNudges u)) * s)
      \<and> mathRound (real_of_int (conviction (calculateDimensionNudges u)) * s) \<le> 15"
    using r s by (intro mathRound_scaled_bounds) auto
  moreover have "- 15 \<le> mathRound (real_of_int (intuition (calculateDimensionNudges u)) * s)
      \<and> mathRound (real_of_int (intuition (calculateDimensionNudges u)) * s) \<le> 15"
    using r s by (intro mathRound_scaled_bounds) auto
  moreover have "- 15 \<le> mathRound (real_of_int (contribution (calculateDimensionNudges u)) * s)
      \<and> mathRound (real_of_int (contribution (calculateDimensionNudges u)) * s) \<le> 15"
    using r s by (intro mathRound_scaled_bounds) auto
  ultimately show ?thesis
    using Some by (simp add: scaledNudges_def Let_def s_def)
qed

lemma dimensionNudges_mergeSignals:
  "dimensionNudges (mergeSignals cs d um fb) = scaledNudges um fb"
  by (simp add: mergeSignals_def Let_def)

lemma deepFocusFounder_raw: "rawDimensionNudges deepFocusFounder = (25, 0, 10)"
  by code_simp

lemma deepFocusFounder_scaled:
  "scaledNudges (Some deepFocusFounder) (Some boostWellness)
     = \<lparr>conviction = 12, intuition = 0, contribution = 8\<rparr>"
  by (simp add: scaledNudges_def calculateDimensionNudges_def deepFocusFounder_raw clamp_def
      userMdWeight_def feedbackWeight_def feedbackEventCount_def boostWellness_def
      mathRound_def)

text \<open>
  Claim C6. For every static profile (or none) and every feedback (or none), the three
  dimension nudges returned by \<open>mergeSignals\<close> are integers between -15 and 15, and all
  three are 0 when there is no static profile.
\<close>

theorem mergeSignals_nudges_bounded:
  "- 15 \<le> conviction (dimensionNudges (mergeSignals cs d um fb)) \<and>
   conviction (dimensionNudges (mergeSignals cs d um fb)) \<le> 15 \<and>
   - 15 \<le> intuition (dimensionNudges (mergeSignals cs d um fb)) \<and>
   intuition (dimensionNudges (mergeSignals cs d um fb)) \<le> 15 \<and>
   - 15 \<le> contribution (dimensionNudges (mergeSignals cs d um fb)) \<and>
   contribution (dimensionNudges (mergeSignals cs d um fb)) \<le> 15 \<and>
   (um = None \<longrightarrow>
      dimensionNudges (mergeSignals cs d um fb)
        = \<lparr>conviction = 0, intuition = 0, contribution = 0\<rparr>)"
  using scaledNudges_range[of um fb]
  by (simp add: dimensionNudges_mergeSignals scaledNudges_None)

theorem mergeSignals_nudges_witness:
  "dimensionNudges
     (mergeSignals [''AI Tools'', ''Crypto''] someDimensions None (Some twentyEvents))
     = \<lparr>conviction = 0, intuition = 0, contribution = 0\<rparr> \<and>
   dimensionNudges
     (mergeSignals [''AI Tools'', ''Crypto''] someDimensions (Some deepFocusFounder)
        (Some boostWellness))
     = \<lparr>conviction = 12, intuition = 0, contribution = 8\<rparr>"
  using mergeSignals_nudges_bounded
          [of "[''AI Tools'', ''Crypto'']" someDimensions None "Some twentyEvents"]
        mergeSignals_nudges_bounded
          [of "[''AI Tools'', ''Crypto'']" someDimensions "Some deepFocusFounder"
              "Some boostWellness"]
  by (simp add: dimensionNudges_mergeSignals deepFocusFounder_scaled)

section \<open>Properties of the classifier\<close>

text \<open>
  Claim C8. \<open>classify\<close> returns one of the five identity types for every triple: Cultivator
  whenever contribution exceeds 65, and otherwise Visionary, Optimizer, Explorer or
  Innovator by the quadrant of \<open>conviction \<ge> 50\<close> and \<open>intuition \<ge> 50\<close>, a value of
  exactly 50 counting as high.
\<close>

theorem classify_rules:
  "classify c i k \<in> {Visionary, Explorer, Optimizer, Innovator, Cultivator} \<and>
   (k > 65 \<longrightarrow> classify c i k = Cultivator) \<and>
   (k \<le> 65 \<and> c \<ge> 50 \<and> i \<ge> 50 \<longrightarrow> classify c i k = Visionary) \<and>
   (k \<le> 65 \<and> c \<ge> 50 \<and> i < 50 \<longrightarrow> classify c i k = Optimizer) \<and>
   (k \<le> 65 \<and> c < 50 \<and> i \<ge> 50 \<longrightarrow> classify c i k = Explorer) \<and>
   (k \<le> 65 \<and> c < 50 \<and> i < 50 \<longrightarrow> classify c i k = Innovator)"
  by (simp add: classify_def)

theorem classify_rules_witness:
  "classify 75 20 10 = Optimizer \<and> classify 10 10 90 = Cultivator \<and>
   classify 50 50 65 = Visionary \<and> classify 49 50 0 = Explorer \<and>
   classify 49 49 0 = Innovator"
  using classify_rules[of 75 20 10] classify_rules[of 10 10 90] classify_rules[of 50 50 65]
    classify_rules[of 49 50 0] classify_rules[of 49 49 0]
  by simp

section \<open>Properties of the catalog search\<close>

lemma foldl_addUnseen_concat:
  "foldl (\<lambda>st results. foldl addUnseen st results) st rs = foldl addUnseen st (concat rs)"
  by (induction rs arbitrary: st) simp_all

lemma find_append:
  "find P (xs @ ys) = (case find P xs of None \<Rightarrow> find P ys | Some x \<Rightarrow> Some x)"
  by (induction xs) simp_all

lemma find_None_slug: "k \<notin> slug ` set hits \<Longrightarrow> find (\<lambda>h. slug h = k) hits = None"
  by (auto simp add: find_None_iff)

lemma dedupInv_step:
  assumes "dedupInv hits st"
  shows "dedupInv (hits @ [x]) (addUnseen st x)"
proof (cases st)
  case (Pair seen acc)
  with assms have inv: "seen = map slug acc" "distinct (map slug acc)"
    "slug ` set acc = slug ` set hits"
    "\<forall>s \<in> set acc. find (\<lambda>h. slug h = slug s) hits = Some s"
    by (simp_all add: dedupInv_def)
  show ?thesis
  proof (cases "slug x \<in> set seen")
    case True
    then have "addUnseen st x = (seen, acc)" by (simp add: addUnseen_def Pair)
    moreover have "slug ` set acc = slug ` set (hits @ [x])"
      using True inv by auto
    moreover have "\<forall>s \<in> set acc. find (\<lambda>h. slug h = slug s) (hits @ [x]) = Some s"
      using inv(4) by (simp add: find_append)
    ultimately show ?thesis using inv by (simp add: dedupInv_def)
  next
    case False
    then have st': "addUnseen st x = (seen @ [slug x], acc @ [x])"
      by (simp add: addUnseen_def Pair setAdd_def)
    have notin: "slug x \<notin> slug ` set hits" using False inv by auto
    have "find (\<lambda>h. slug h = slug x) (hits @ [x]) = Some x"
      using find_None_slug[OF notin] by (simp add: find_append)
    moreover have "\<forall>s \<in> set acc. find (\<lambda>h. slug h = slug s) (hits @ [x]) = Some s"
      using inv(4) by (simp add: find_append)
    moreover have "distinct (map slug (acc @ [x]))"
      using inv False by simp
    moreover have "slug ` set (acc @ [x]) = slug ` set (hits @ [x])"
      using inv by auto
    ultimately show ?thesis using inv by (simp add: dedupInv_def st')
  qed
qed

lemma dedupInv_foldl: "dedupInv hits (foldl addUnseen ([], []) hits)"
proof (induction hits rule: rev_induct)
  case Nil
  show ?case by (simp add: dedupInv_def)
next
  case (snoc x xs)
  then show ?case using dedupInv_step[of xs _ x] by simp
qed

lemma dedupBySlug_props:
  "distinct (map slug (dedupBySlug rs)) \<and>
   slug ` set (dedupBySlug rs) = slug ` set (concat rs) \<and>
   (\<forall>s \<in> set (dedupBySlug rs). find (\<lambda>h. slug h = slug s) (concat rs) = Some s)"
  using dedupInv_foldl[of "concat rs"]
  by (simp add: dedupBySlug_def foldl_addUnseen_concat dedupInv_def)

lemma distinct_map_sort_key:
  "distinct (map g (sort_key f xs)) = distinct (map g xs)"
  by (simp add: distinct_map)

lemma twoHits_result:
  "searchMultipleCategories twoHits [''Productivity'', ''AI Tools''] 3 = [pdfSkill 0.5]"
  by (simp add: searchMultipleCategories_def dedupBySlug_def addUnseen_def twoHits_def
      pdfSkill_def setAdd_def)

lemma twoHits_allHits:
  "allHits twoHits [''Productivity'', ''AI Tools''] 3 = [pdfSkill 0.5, pdfSkill 0.9]"
  by (simp add: allHits_def twoHits_def)

text \<open>
  Claim C9, as stated, fails: when two category searches return the same slug with the
  similarity scores 0.5 and 0.9, the merged result holds the first hit with its own score
  0.5, not the maximum 0.9 of the duplicate hits.
\<close>

theorem searchMultipleCategories_keeps_first_score:
  "map similarityScore (searchMultipleCategories twoHits [''Productivity'', ''AI Tools''] 3)
     = [0.5] \<and>
   Max (set (map similarityScore (filter (\<lambda>h. slug h = ''pdf-tools'')
          (allHits twoHits [''Productivity'', ''AI Tools''] 3)))) = 0.9"
  by (simp add: twoHits_result twoHits_allHits pdfSkill_def)

text \<open>
  Claim C9, amended. The merged result of \<open>searchMultipleCategories\<close> contains each slug
  among the hits exactly once; its entry for a slug is the first hit with that slug,
  unchanged (its similarity score included); and the result is ordered by descending
  similarity score.
\<close>

theorem searchMultipleCategories_first_seen:
  "distinct (map slug (searchMultipleCategories search cats n)) \<and>
   slug ` set (searchMultipleCategories search cats n) = slug ` set (allHits search cats n) \<and>
   (\<forall>s \<in> set (searchMultipleCategories search cats n).
      find (\<lambda>h. slug h = slug s) (allHits search cats n) = Some s) \<and>
   sorted (map (\<lambda>s. - similarityScore s) (searchMultipleCategories search cats n))"
  using dedupBySlug_props[of "map (\<lambda>category. search category n) cats"]
  by (simp add: searchMultipleCategories_def allHits_def distinct_map_sort_key Let_def)

theorem searchMultipleCategories_first_seen_witness:
  "map slug (searchMultipleCategories twoHits [''Productivity'', ''AI Tools''] 3)
     = [''pdf-tools''] \<and>
   find (\<lambda>h. slug h = ''pdf-tools'') (allHits twoHits [''Productivity'', ''AI Tools''] 3)
     = Some (pdfSkill 0.5)"
  using searchMultipleCategories_first_seen[of twoHits "[''Productivity'', ''AI Tools'']" 3]
  by (simp add: twoHits_result twoHits_allHits pdfSkill_def)

section \<open>Properties of the merged categories\<close>

lemma update_fresh: "k \<notin> fst ` set al \<Longrightarrow> AList.update k v al = al @ [(k, v)]"
  by (induction al) auto

lemma getOrZero_fresh: "k \<notin> fst ` set al \<Longrightarrow> getOrZero al k = 0"
  by (simp add: getOrZero_def map_of_eq_None_iff[THEN iffD2])

lemma keys_addPositional:
  "fst ` set (addPositional w i cs scores) = set cs \<union> fst ` set scores"
  by (induction cs arbitrary: i scores) (auto simp add: AList.dom_update Let_def)

lemma distinct_addPositional:
  "distinct (map fst scores) \<Longrightarrow> distinct (map fst (addPositional w i cs scores))"
  by (induction cs arbitrary: i scores) (simp_all add: AList.distinct_update Let_def)

lemma keys_applyFeedback:
  "fst ` set scores \<subseteq> fst ` set (applyFeedback fw entries scores)"
proof (induction entries arbitrary: scores)
  case Nil
  show ?case by simp
next
  case (Cons e entries)
  obtain cat weight where e: "e = (cat, weight)" by (cases e)
  let ?s = "if getOrZero scores cat > 0 then AList.update cat (getOrZero scores cat * weight) scores
            else if weight > 1.2 then AList.update cat (fw * (weight - 1.0)) scores
            else scores"
  have "fst ` set scores \<subseteq> fst ` set ?s" by (auto simp add: AList.dom_update)
  also have "\<dots> \<subseteq> fst ` set (applyFeedback fw entries ?s)" by (rule Cons.IH)
  finally show ?case by (simp add: e Let_def)
qed

lemma distinct_applyFeedback:
  "distinct (map fst scores) \<Longrightarrow> distinct (map fst (applyFeedback fw entries scores))"
proof (induction entries arbitrary: scores)
  case Nil
  then show ?case by simp
next
  case (Cons e entries)
  obtain cat weight where e: "e = (cat, weight)" by (cases e)
  show ?case
    using Cons.prems by (auto simp add: e Let_def intro!: Cons.IH AList.distinct_update)
qed

lemma distinct_accumulatedScores: "distinct (map fst (accumulatedScores cs um fb))"
  by (simp add: accumulatedScores_def distinct_addPositional)

lemma keys_accumulatedScores:
  "fst ` set (accumulatedScores cs um fb) = set cs \<union> set (userMdCategories um)"
  by (auto simp add: accumulatedScores_def keys_addPositional)

lemma distinct_categoryScores: "distinct (map fst (categoryScores cs um fb))"
  by (simp add: categoryScores_def distinct_accumulatedScores distinct_applyFeedback Let_def
      split: option.splits)

lemma keys_categoryScores: "set cs \<subseteq> fst ` set (categoryScores cs um fb)"
proof -
  have "set cs \<subseteq> fst ` set (accumulatedScores cs um fb)"
    by (simp add: keys_accumulatedScores)
  moreover have "fst ` set (accumulatedScores cs um fb) \<subseteq> fst ` set (categoryScores cs um fb)"
    using keys_applyFeedback by (simp add: categoryScores_def Let_def split: option.splits)
  ultimately show ?thesis by blast
qed

lemma distinct_sortedCategories: "distinct (sortedCategories cs um fb)"
  by (simp add: sortedCategories_def distinct_map_sort_key distinct_categoryScores)

lemma set_sortedCategories: "set cs \<subseteq> set (sortedCategories cs um fb)"
  using keys_categoryScores[of cs um fb] by (simp add: sortedCategories_def)

lemma mainCategories_mergeSignals:
  "mainCategories (mergeSignals cs d um fb) = take 3 (sortedCategories cs um fb)"
proof (cases "sortedCategories cs um fb = []")
  case True
  then have "cs = []" using set_sortedCategories[of cs um fb] by simp
  then show ?thesis using True by (simp add: mergeSignals_def Let_def)
next
  case False
  then show ?thesis by (simp add: mergeSignals_def Let_def)
qed

lemma subCategories_mergeSignals:
  "subCategories (mergeSignals cs d um fb) =
     take 10 (setAddAll (setAddAll [] (drop 3 (sortedCategories cs um fb))) (userMdSubCategories um))"
  by (simp add: mergeSignals_def Let_def)

lemma set_setAddAll: "set (setAddAll s xs) = set s \<union> set xs"
  unfolding setAddAll_def
  by (induction xs arbitrary: s) (auto simp add: setAdd_def)

lemma distinct_setAddAll: "distinct s \<Longrightarrow> distinct (setAddAll s xs)"
  unfolding setAddAll_def
  by (induction xs arbitrary: s) (auto simp add: setAdd_def)

text \<open>
  Claim C3, amended. For every conversation list, static profile (or none) and feedback (or
  none), \<open>mainCategories\<close> has at most 3 entries and no duplicates, \<open>subCategories\<close> has at
  most 10 entries and no duplicates, and a name that occurs in both lists is one of the
  interests declared by the static profile: the sub-categories that come from the scoreboard
  never repeat a main category.
\<close>

theorem mergeSignals_categories_shape:
  "length (mainCategories (mergeSignals cs d um fb)) \<le> 3 \<and>
   distinct (mainCategories (mergeSignals cs d um fb)) \<and>
   length (subCategories (mergeSignals cs d um fb)) \<le> 10 \<and>
   distinct (subCategories (mergeSignals cs d um fb)) \<and>
   set (mainCategories (mergeSignals cs d um fb)) \<inter> set (subCategories (mergeSignals cs d um fb))
     \<subseteq> set (userMdSubCategories um)"
proof -
  let ?sorted = "sortedCategories cs um fb"
  let ?subset = "setAddAll (setAddAll [] (drop 3 ?sorted)) (userMdSubCategories um)"
  have d: "distinct ?sorted" by (rule distinct_sortedCategories)
  have "distinct (take 3 ?sorted @ drop 3 ?sorted)" using d by simp
  then have disj: "set (take 3 ?sorted) \<inter> set (drop 3 ?sorted) = {}"
    by (simp only: distinct_append)
  have ds: "distinct ?subset" by (intro distinct_setAddAll) simp
  have ss: "set ?subset = set (drop 3 ?sorted) \<union> set (userMdSubCategories um)"
    by (simp add: set_setAddAll)
  have "set (take 10 ?subset) \<subseteq> set ?subset" by (rule set_take_subset)
  then have "set (take 3 ?sorted) \<inter> set (take 10 ?subset) \<subseteq> set (userMdSubCategories um)"
    using disj ss by blast
  then show ?thesis
    using d ds by (simp add: mainCategories_mergeSignals subCategories_mergeSignals)
qed

lemmas merge_eval = mergeSignals_def sortedCategories_def categoryScores_def accumulatedScores_def
  convWeight_def userMdWeight_def feedbackWeight_def feedbackEventCount_def getOrZero_def Let_def
  setAddAll_def setAdd_def userMdCategories_def userMdSubCategories_def

text \<open>
  Claim C3, as stated, fails: an interest declared by the static profile enters
  \<open>subCategories\<close> even when it is a main category already.
\<close>

theorem mergeSignals_interest_in_both_lists:
  "''AI Tools'' \<in> set (mainCategories
      (mergeSignals [''AI Tools'', ''Crypto''] someDimensions (Some interestsOnlyProfile) None)) \<and>
   ''AI Tools'' \<in> set (subCategories
      (mergeSignals [''AI Tools'', ''Crypto''] someDimensions (Some interestsOnlyProfile) None))"
  by (simp add: merge_eval mapUserMdToCategories_def interestsOnlyProfile_def)

theorem mergeSignals_categories_shape_witness:
  "set (mainCategories
          (mergeSignals [''AI Tools'', ''Crypto'', ''Design'', ''Finance''] someDimensions None None))
    \<inter> set (subCategories
          (mergeSignals [''AI Tools'', ''Crypto'', ''Design'', ''Finance''] someDimensions None None))
    = {}"
  using mergeSignals_categories_shape
          [of "[''AI Tools'', ''Crypto'', ''Design'', ''Finance'']" someDimensions None None]
  by (simp add: userMdSubCategories_def)

section \<open>Conversation-only merging\<close>

lemma addPositional_fresh:
  "distinct cs \<Longrightarrow> set cs \<inter> fst ` set scores = {} \<Longrightarrow>
   addPositional w i cs scores = scores @ positional w i cs"
proof (induction cs arbitrary: i scores)
  case Nil
  show ?case by simp
next
  case (Cons c cs)
  define v where "v = w * (1.0 - real i * 0.1)"
  from Cons.prems have fresh: "c \<notin> fst ` set scores" by auto
  have step: "AList.update c (getOrZero scores c + v) scores = scores @ [(c, v)]"
    using fresh by (simp add: update_fresh getOrZero_fresh)
  have "distinct cs" using Cons.prems by simp
  moreover have "set cs \<inter> fst ` set (scores @ [(c, v)]) = {}"
    using Cons.prems by auto
  ultimately have ih: "addPositional w (Suc i) cs (scores @ [(c, v)])
                     = (scores @ [(c, v)]) @ positional w (Suc i) cs"
    by (rule Cons.IH)
  have "addPositional w i (c # cs) scores
          = addPositional w (Suc i) cs (AList.update c (getOrZero scores c + v) scores)"
    by (simp add: Let_def v_def)
  also have "\<dots> = (scores @ [(c, v)]) @ positional w (Suc i) cs"
    by (simp only: step ih)
  also have "\<dots> = scores @ positional w i (c # cs)"
    by (simp add: v_def)
  finally show ?case .
qed

lemma map_fst_positional: "map fst (positional w i cs) = cs"
  by (induction cs arbitrary: i) simp_all

lemma positional_upper:
  "0 \<le> w \<Longrightarrow> e \<in> set (positional w i cs) \<Longrightarrow> snd e \<le> w * (1.0 - real i * 0.1)"
proof (induction cs arbitrary: i)
  case Nil
  then show ?case by simp
next
  case (Cons c cs)
  show ?case
  proof (cases "e = (c, w * (1.0 - real i * 0.1))")
    case True
    then show ?thesis by simp
  next
    case False
    with Cons.prems have "e \<in> set (positional w (Suc i) cs)" by simp
    then have "snd e \<le> w * (1.0 - real (Suc i) * 0.1)" using Cons.IH Cons.prems(1) by blast
    also have "\<dots> \<le> w * (1.0 - real i * 0.1)"
      using Cons.prems(1) by (intro mult_left_mono) simp_all
    finally show ?thesis .
  qed
qed

lemma sorted_positional:
  "0 \<le> w \<Longrightarrow> sorted (map (\<lambda>e. - snd e) (positional w i cs))"
proof (induction cs arbitrary: i)
  case Nil
  show ?case by simp
next
  case (Cons c cs)
  have "\<forall>e \<in> set (positional w (Suc i) cs). snd e \<le> w * (1.0 - real i * 0.1)"
  proof
    fix e assume "e \<in> set (positional w (Suc i) cs)"
    then have "snd e \<le> w * (1.0 - real (Suc i) * 0.1)" using positional_upper Cons.prems by blast
    also have "\<dots> \<le> w * (1.0 - real i * 0.1)"
      using Cons.prems by (intro mult_left_mono) simp_all
    finally show "snd e \<le> w * (1.0 - real i * 0.1)" .
  qed
  then show ?case using Cons.IH[OF Cons.prems] by auto
qed

lemma conversation_only_weights:
  "feedbackWeight None = 0" "userMdWeight None fb = 0" "convWeight None None = 1"
  by (simp_all add: feedbackWeight_def feedbackEventCount_def userMdWeight_def convWeight_def)

lemma sortedCategories_conversation_only:
  assumes "distinct cs"
  shows "sortedCategories cs None None = cs"
proof -
  have "accumulatedScores cs None None = positional 1 0 cs"
    using addPositional_fresh[OF assms, of "[]" 1 0]
    by (simp add: accumulatedScores_def userMdCategories_def conversation_only_weights)
  then have "categoryScores cs None None = positional 1 0 cs"
    by (simp add: categoryScores_def)
  moreover have "sort_key (\<lambda>e. - snd e) (positional 1 0 cs) = positional 1 0 cs"
    by (intro sort_key_id_if_sorted sorted_positional) simp
  ultimately show ?thesis
    by (simp add: sortedCategories_def map_fst_positional)
qed

text \<open>
  Claim C2, as stated, fails: with no static profile and no feedback, a conversation list of
  four categories yields only its first three as \<open>mainCategories\<close>.
\<close>

theorem mergeSignals_four_categories_truncated:
  "mainCategories
     (mergeSignals [''AI Tools'', ''Crypto'', ''Design'', ''Finance''] someDimensions None None)
     = [''AI Tools'', ''Crypto'', ''Design''] \<and>
   mainCategories
     (mergeSignals [''AI Tools'', ''Crypto'', ''Design'', ''Finance''] someDimensions None None)
     \<noteq> [''AI Tools'', ''Crypto'', ''Design'', ''Finance'']"
  by (simp add: merge_eval)

text \<open>
  Claim C2, amended. With no static profile and no feedback, and a raw conversation list
  without repeated names, \<open>mainCategories\<close> is the first three entries of the raw list in
  their order; it is the whole list when that has at most three entries.
\<close>

theorem mergeSignals_conversation_only:
  "distinct cs \<Longrightarrow> mainCategories (mergeSignals cs d None None) = take 3 cs"
  by (simp add: mainCategories_mergeSignals sortedCategories_conversation_only)

theorem mergeSignals_conversation_only_witness:
  "mainCategories (mergeSignals [''AI Tools'', ''Crypto''] someDimensions None None)
     = [''AI Tools'', ''Crypto'']"
  using mergeSignals_conversation_only[of "[''AI Tools'', ''Crypto'']" someDimensions]
  by simp

section \<open>Feedback multipliers\<close>

lemma getOrZero_update_other: "c \<noteq> k \<Longrightarrow> getOrZero (AList.update k v al) c = getOrZero al c"
  by (simp add: getOrZero_def AList.update_conv')

lemma map_of_applyFeedback:
  "distinct (map fst entries) \<Longrightarrow>
   map_of (applyFeedback fw entries scores) c =
     (case map_of entries c of
        None \<Rightarrow> map_of scores c
      | Some weight \<Rightarrow> feedbackEntryResult fw scores c weight)"
proof (induction entries arbitrary: scores)
  case Nil
  show ?case by simp
next
  case (Cons e entries)
  obtain k w where e: "e = (k, w)" by (cases e)
  define s' where "s' = (if getOrZero scores k > 0 then AList.update k (getOrZero scores k * w) scores
            else if w > 1.2 then AList.update k (fw * (w - 1.0)) scores
            else scores)"
  have unfold: "applyFeedback fw (e # entries) scores = applyFeedback fw entries s'"
    by (simp add: e s'_def Let_def)
  have d: "distinct (map fst entries)" and k: "k \<notin> fst ` set entries"
    using Cons.prems by (auto simp add: e)
  have ih: "map_of (applyFeedback fw entries s') c =
     (case map_of entries c of None \<Rightarrow> map_of s' c | Some weight \<Rightarrow> feedbackEntryResult fw s' c weight)"
    using Cons.IH[OF d] .
  show ?case
  proof (cases "c = k")
    case True
    have "map_of entries k = None" using k by (simp add: map_of_eq_None_iff)
    moreover have "map_of s' k = feedbackEntryResult fw scores k w"
      by (simp add: s'_def feedbackEntryResult_def AList.update_conv')
    ultimately have "map_of (applyFeedback fw entries s') c = feedbackEntryResult fw scores k w"
      using ih True by simp
    moreover have "map_of (e # entries) c = Some w" using True by (simp add: e)
    ultimately show ?thesis using True by (simp only: unfold option.case)
  next
    case False
    have m: "map_of s' c = map_of scores c"
      using False by (simp add: s'_def AList.update_conv')
    have g: "getOrZero s' c = getOrZero scores c"
      using m by (simp add: getOrZero_def)
    have "feedbackEntryResult fw s' c x = feedbackEntryResult fw scores c x" for x
      by (simp add: feedbackEntryResult_def m g)
    then have "map_of (applyFeedback fw entries s') c =
        (case map_of entries c of None \<Rightarrow> map_of scores c
         | Some weight \<Rightarrow> feedbackEntryResult fw scores c weight)"
      using ih m by (simp split: option.splits)
    moreover have "map_of (e # entries) c = map_of entries c" using False by (simp add: e)
    ultimately show ?thesis by (simp only: unfold)
  qed
qed

text \<open>
  Claim C5, amended. For every entry of \<open>feedback.categoryWeights\<close>: the scoreboard accumulated
  from the conversation and the static profile holds exactly their categories; when the
  accumulated score of the entry's category is greater than 0 the final score is that score
  times the multiplier; otherwise (the category is absent, or its accumulated score is not
  positive) the final score is \<open>feedbackWeight * (multiplier - 1.0)\<close> when the multiplier
  exceeds 1.2, and the scoreboard is left as it was for that category when it does not.
\<close>

theorem mergeSignals_feedback_scores:
  assumes "categoryWeights f = Some entries" and "distinct (map fst entries)"
    and "(cat, weight) \<in> set entries"
  shows "fst ` set (accumulatedScores cs um (Some f)) = set cs \<union> set (userMdCategories um) \<and>
     map_of (categoryScores cs um (Some f)) cat =
       (if getOrZero (accumulatedScores cs um (Some f)) cat > 0
        then Some (getOrZero (accumulatedScores cs um (Some f)) cat * weight)
        else if weight > 1.2 then Some (feedbackWeight (Some f) * (weight - 1.0))
        else map_of (accumulatedScores cs um (Some f)) cat)"
proof -
  have "map_of entries cat = Some weight" using assms(2,3) by simp
  then show ?thesis
    using map_of_applyFeedback[OF assms(2), of "feedbackWeight (Some f)" "accumulatedScores cs um (Some f)" cat]
    by (simp add: categoryScores_def assms(1) feedbackEntryResult_def keys_accumulatedScores)
qed

lemma twelveCategories_accumulated:
  "accumulatedScores twelveCategories None (Some halveMusic) =
     [(''AI Tools'', 0.9), (''Productivity'', 0.81), (''Wellness'', 0.72), (''Education'', 0.63),
      (''Crypto'', 0.54), (''Lifestyle'', 0.45), (''Design'', 0.36), (''Development'', 0.27),
      (''Marketing'', 0.18), (''Finance'', 0.09), (''Gaming'', 0), (''Music'', - 0.09)]"
  by (simp add: accumulatedScores_def twelveCategories_def halveMusic_def userMdCategories_def
      convWeight_def userMdWeight_def feedbackWeight_def feedbackEventCount_def getOrZero_def)

text \<open>
  Claim C5, as stated, fails: the twelfth conversation category is present in the scoreboard
  with the negative score -0.09, and a feedback multiplier of 0.5 leaves that score as it is
  instead of multiplying it.
\<close>

theorem mergeSignals_nonpositive_score_not_multiplied:
  "map_of (accumulatedScores twelveCategories None (Some halveMusic)) ''Music'' = Some (- 0.09) \<and>
   map_of (categoryScores twelveCategories None (Some halveMusic)) ''Music'' = Some (- 0.09) \<and>
   map_of (categoryScores twelveCategories None (Some halveMusic)) ''Music''
     \<noteq> Some (getOrZero (accumulatedScores twelveCategories None (Some halveMusic)) ''Music'' * 0.5)"
proof -
  have cw: "categoryWeights halveMusic = Some [(''Music'', 0.5)]"
    by (simp add: halveMusic_def)
  show ?thesis
    by (simp add: categoryScores_def twelveCategories_accumulated cw getOrZero_def)
qed

theorem mergeSignals_feedback_scores_witness:
  "map_of (categoryScores [''AI Tools'', ''Crypto''] None (Some boostWellness)) ''Crypto''
     = Some (0.72 * 2) \<and>
   map_of (categoryScores [''AI Tools'', ''Crypto''] None (Some boostWellness)) ''Wellness''
     = Some (0.2 * 0.5)"
  using mergeSignals_feedback_scores
          [of boostWellness "[(''Crypto'', 2), (''Wellness'', 1.5)]" "''Crypto''" 2
              "[''AI Tools'', ''Crypto'']" None]
        mergeSignals_feedback_scores
          [of boostWellness "[(''Crypto'', 2), (''Wellness'', 1.5)]" "''Wellness''" "1.5"
              "[''AI Tools'', ''Crypto'']" None]
  by (simp add: boostWellness_def accumulatedScores_def userMdCategories_def convWeight_def
      userMdWeight_def feedbackWeight_def feedbackEventCount_def getOrZero_def)

end
